theory Spec2Isabelle
  imports Complex_Main
begin

section \<open>Numbers and errors\<close>

text \<open>
  QuadControl.cpp computes with C++ \<open>float\<close>. The model reads every float as a real
  number: arithmetic is exact, rounding and overflow are not modelled. A float division
  by zero gives an infinity or a NaN, and the program goes on with it; these are no real
  numbers, so where a variable divisor is zero this model ends with \<open>DivisionByZero\<close>
  and says nothing of what the program returns. Divisions by the non-zero constants
  \<open>4.f\<close>, \<open>sqrtf(2.f)\<close> and \<open>2 * F_PI\<close> are plain divisions. Two later sections
  follow the float arithmetic itself, where a property turns on it: line 197 with the
  infinities of a division by zero, and lines 68 to 87 with binary32 rounding.
\<close>

datatype error = DivisionByZero

definition fdiv :: "real \<Rightarrow> real \<Rightarrow> error + real" where
  "fdiv a b = (if b = 0 then Inl DivisionByZero else Inr (a / b))"

text \<open>Sequencing of fallible steps: the first error is the result.\<close>

definition andThen :: "error + 'a \<Rightarrow> ('a \<Rightarrow> error + 'b) \<Rightarrow> error + 'b" where
  "andThen r f = (case r of Inl e \<Rightarrow> Inl e | Inr v \<Rightarrow> f v)"

section \<open>Declarations used by QuadControl.cpp\<close>

text \<open>
  Modelled from the spec: the macro \<open>CONSTRAIN(a, low, high)\<close> of Common.h, which is
  not part of the source file. The spec calls it clamping (saturating) a value to the
  range from \<open>low\<close> to \<open>high\<close>.
\<close>

definition CONSTRAIN :: "real \<Rightarrow> real \<Rightarrow> real \<Rightarrow> real" where
  "CONSTRAIN a low high = max low (min a high)"

text \<open>
  Modelled from the spec: the constant \<open>F_PI\<close> of Common.h, which is not part of the
  source file. The spec writes it \<open>\<pi>\<close>.
\<close>

definition F_PI :: real where
  "F_PI = pi"

text \<open>
  The C library's \<open>fmodf(a, b)\<close> for \<open>b \<noteq> 0\<close>: \<open>a - n * b\<close>, where \<open>n\<close> is \<open>a / b\<close>
  with its fractional part cut off (rounded towards zero). The source calls it with the
  constant divisor \<open>2 * F_PI\<close> only.
\<close>

definition fmodf :: "real \<Rightarrow> real \<Rightarrow> real" where
  "fmodf a b =
     (let r = a / b;
          n = (if 0 \<le> r then \<lfloor>r\<rfloor> else \<lceil>r\<rceil>)
      in a - real_of_int n * b)"

text \<open>
  Modelled from the spec: the vector type \<open>V3F\<close> of Math/V3F.h, which is not part of
  the source file, with the operations the controller uses: the sum and difference of
  two vectors, their element-wise product (\<open>I * kpPQR * error\<close>), the product with a
  scalar, the magnitude \<open>mag()\<close> and the direction-preserving normalisation \<open>norm()\<close>.
  The fields are called \<open>vx\<close>, \<open>vy\<close>, \<open>vz\<close> for the source's \<open>x\<close>, \<open>y\<close>, \<open>z\<close>.
\<close>

record V3F =
  vx :: real
  vy :: real
  vz :: real

text \<open>Modelled from the spec: the vector a default-constructed \<open>V3F\<close> holds, all zero.\<close>

definition V3F_zero :: V3F where
  "V3F_zero = \<lparr>vx = 0, vy = 0, vz = 0\<rparr>"

text \<open>Modelled from the spec: \<open>a + b\<close> on \<open>V3F\<close>, per axis.\<close>

definition V3F_add :: "V3F \<Rightarrow> V3F \<Rightarrow> V3F" where
  "V3F_add a b = \<lparr>vx = vx a + vx b, vy = vy a + vy b, vz = vz a + vz b\<rparr>"

text \<open>Modelled from the spec: \<open>a - b\<close> on \<open>V3F\<close>, per axis.\<close>

definition V3F_sub :: "V3F \<Rightarrow> V3F \<Rightarrow> V3F" where
  "V3F_sub a b = \<lparr>vx = vx a - vx b, vy = vy a - vy b, vz = vz a - vz b\<rparr>"

text \<open>Modelled from the spec: \<open>a * b\<close> on two \<open>V3F\<close>, the element-wise product.\<close>

definition V3F_mul :: "V3F \<Rightarrow> V3F \<Rightarrow> V3F" where
  "V3F_mul a b = \<lparr>vx = vx a * vx b, vy = vy a * vy b, vz = vz a * vz b\<rparr>"

text \<open>Modelled from the spec: \<open>a * k\<close>, a \<open>V3F\<close> times a scalar.\<close>

definition V3F_scale :: "V3F \<Rightarrow> real \<Rightarrow> V3F" where
  "V3F_scale a k = \<lparr>vx = vx a * k, vy = vy a * k, vz = vz a * k\<rparr>"

text \<open>Modelled from the spec: \<open>a.mag()\<close>, the magnitude (Euclidean length) of \<open>a\<close>.\<close>

definition mag :: "V3F \<Rightarrow> real" where
  "mag a = sqrt (vx a * vx a + vy a * vy a + vz a * vz a)"

text \<open>
  Modelled from the spec: \<open>a.norm()\<close>, the direction-preserving normalisation, each
  component divided by the magnitude.
\<close>

definition norm_V3F :: "V3F \<Rightarrow> error + V3F" where
  "norm_V3F a =
     andThen (fdiv (vx a) (mag a)) (\<lambda>nx.
     andThen (fdiv (vy a) (mag a)) (\<lambda>ny.
     andThen (fdiv (vz a) (mag a)) (\<lambda>nz.
     Inr \<lparr>vx = nx, vy = ny, vz = nz\<rparr>)))"

text \<open>
  \<open>Mat3x3F\<close> (Math/Mat3x3F.h) is read through its element access \<open>R(i,j)\<close> only.
  \<open>Quaternion<float>\<close> is declared outside the source file too; the controller
  observes an attitude through \<open>RotationMatrix_IwrtB()\<close> and \<open>Yaw()\<close> only, so the
  model takes an attitude as the pair of these two observations.
\<close>

type_synonym Mat3x3F = "nat \<Rightarrow> nat \<Rightarrow> real"

record Quaternion =
  RotationMatrix_IwrtB :: Mat3x3F
  Yaw :: real

record TrajectoryPoint =
  position :: V3F
  velocity :: V3F
  accel :: V3F
  attitude :: Quaternion

text \<open>
  \<open>VehicleCommand\<close>: the four motor thrusts \<open>desiredThrustsN[0..3]\<close> (front left,
  front right, rear left, rear right).
\<close>

record VehicleCommand =
  desiredThrustsN :: "real list"

section \<open>The controller object\<close>

text \<open>
  The members of \<open>QuadControl\<close> that the source file reads or writes: the parameters
  loaded by \<open>Init\<close>, the vehicle constants and the estimated state inherited from
  \<open>BaseController\<close>, and the integrator \<open>integratedAltitudeError\<close>, the only member
  that a control tick changes besides \<open>curTrajPoint\<close>. \<open>CONST_GRAVITY\<close> is a macro
  of Common.h whose value is not part of the source file; it is taken as a parameter.
\<close>

record QuadControl =
  kpPosXY :: real
  kpPosZ :: real
  KiPosZ :: real
  kpVelXY :: real
  kpVelZ :: real
  kpBank :: real
  kpYaw :: real
  kpPQR :: V3F
  maxDescentRate :: real
  maxAscentRate :: real
  maxSpeedXY :: real
  maxAccelXY :: real
  maxTiltAngle :: real
  minMotorThrust :: real
  maxMotorThrust :: real
  mass :: real
  L :: real
  kappa :: real
  Ixx :: real
  Iyy :: real
  Izz :: real
  CONST_GRAVITY :: real
  estPos :: V3F
  estVel :: V3F
  estAtt :: Quaternion
  estOmega :: V3F
  curTrajPoint :: TrajectoryPoint
  integratedAltitudeError :: real

section \<open>GenerateMotorCommands\<close>

text \<open>
  Lines 68 to 87: the four thrusts before they are constrained, in the order front
  left, front right, rear left, rear right.
\<close>

definition motorThrusts :: "QuadControl \<Rightarrow> real \<Rightarrow> V3F \<Rightarrow> error + real list" where
  "motorThrusts q collThrustCmd momentCmd =
     (let l = L q / sqrt 2 in
      andThen (fdiv (vx momentCmd) l) (\<lambda>t1.
      andThen (fdiv (vy momentCmd) l) (\<lambda>t2.
      andThen (fdiv (- vz momentCmd) (kappa q)) (\<lambda>t3.
      let t4 = collThrustCmd in
      Inr [(t1 + t2 + t3 + t4) / 4,
           (- t1 + t2 - t3 + t4) / 4,
           (t1 - t2 - t3 + t4) / 4,
           (- t1 - t2 + t3 + t4) / 4]))))"

text \<open>Lines 89 to 94: every thrust is constrained on its own, and the command returned.\<close>

definition GenerateMotorCommands :: "QuadControl \<Rightarrow> real \<Rightarrow> V3F \<Rightarrow> error + VehicleCommand" where
  "GenerateMotorCommands q collThrustCmd momentCmd =
     andThen (motorThrusts q collThrustCmd momentCmd) (\<lambda>ts.
     Inr \<lparr>desiredThrustsN =
            map (\<lambda>t. CONSTRAIN t (minMotorThrust q) (maxMotorThrust q)) ts\<rparr>)"

section \<open>BodyRateControl\<close>

definition BodyRateControl :: "QuadControl \<Rightarrow> V3F \<Rightarrow> V3F \<Rightarrow> V3F" where
  "BodyRateControl q pqrCmd pqr =
     (let I = \<lparr>vx = Ixx q, vy = Iyy q, vz = Izz q\<rparr>;
          error = V3F_sub pqrCmd pqr
      in V3F_mul (V3F_mul I (kpPQR q)) error)"

section \<open>RollPitchControl\<close>

definition RollPitchControl :: "QuadControl \<Rightarrow> V3F \<Rightarrow> Quaternion \<Rightarrow> real \<Rightarrow> error + V3F" where
  "RollPitchControl q accelCmd att collThrustCmd =
     (let R = RotationMatrix_IwrtB att in
      if collThrustCmd > 0 then
        andThen (fdiv (- collThrustCmd) (mass q)) (\<lambda>c.
        andThen (fdiv (vx accelCmd) c) (\<lambda>ax.
        andThen (fdiv (vy accelCmd) c) (\<lambda>ay.
        let b_x = CONSTRAIN ax (- sin (maxTiltAngle q)) (sin (maxTiltAngle q));
            b_y = CONSTRAIN ay (- sin (maxTiltAngle q)) (sin (maxTiltAngle q));
            b_x_d = kpBank q * (b_x - R 0 2);
            b_y_d = kpBank q * (b_y - R 1 2)
        in
        andThen (fdiv (R 1 0 * b_x_d - R 0 0 * b_y_d) (R 2 2)) (\<lambda>p.
        andThen (fdiv (R 1 1 * b_x_d - R 0 1 * b_y_d) (R 2 2)) (\<lambda>r.
        Inr \<lparr>vx = p, vy = r, vz = 0\<rparr>)))))
      else Inr \<lparr>vx = 0, vy = 0, vz = 0\<rparr>)"

section \<open>AltitudeControl\<close>

text \<open>
  The call changes the member \<open>integratedAltitudeError\<close> (line 188) before any
  division, so the model returns the updated controller beside the thrust, also when
  the thrust is an error. The source's parameter \<open>attitude\<close> is called \<open>att\<close> here and
  in \<open>RollPitchControl\<close>.
\<close>

definition AltitudeControl ::
  "QuadControl \<Rightarrow> real \<Rightarrow> real \<Rightarrow> real \<Rightarrow> real \<Rightarrow> Quaternion \<Rightarrow> real \<Rightarrow> real
     \<Rightarrow> (error + real) \<times> QuadControl" where
  "AltitudeControl q posZCmd velZCmd posZ velZ att accelZCmd dt =
     (let R = RotationMatrix_IwrtB att;
          zErr = posZCmd - posZ;
          pTerm = kpPosZ q * zErr;
          z_dot_err = velZCmd - velZ;
          q' = q\<lparr>integratedAltitudeError := integratedAltitudeError q + zErr * dt\<rparr>;
          dTerm = kpVelZ q * z_dot_err + velZ;
          iTerm = KiPosZ q * integratedAltitudeError q';
          b_z = R 2 2;
          u_1_bar = pTerm + dTerm + iTerm + accelZCmd
      in (andThen (fdiv (u_1_bar - CONST_GRAVITY q) b_z) (\<lambda>acc.
          andThen (fdiv (- maxAscentRate q) dt) (\<lambda>low.
          andThen (fdiv (maxAscentRate q) dt) (\<lambda>high.
          Inr (- mass q * CONSTRAIN acc low high)))),
          q'))"

section \<open>LateralPositionControl\<close>

text \<open>
  Lines 241 to 249: the velocity command that enters the control sum, from the desired
  velocity whose Z component line 223 has set to 0.
\<close>

definition capVelCmd :: "QuadControl \<Rightarrow> V3F \<Rightarrow> error + V3F" where
  "capVelCmd q velCmd =
     (if mag velCmd > maxSpeedXY q
      then andThen (norm_V3F velCmd) (\<lambda>n. Inr (V3F_scale n (maxSpeedXY q)))
      else Inr velCmd)"

definition LateralPositionControl ::
  "QuadControl \<Rightarrow> V3F \<Rightarrow> V3F \<Rightarrow> V3F \<Rightarrow> V3F \<Rightarrow> V3F \<Rightarrow> error + V3F" where
  "LateralPositionControl q posCmd0 velCmd0 pos vel accelCmdFF0 =
     (let accelCmdFF = accelCmdFF0\<lparr>vz := 0\<rparr>;
          velCmd = velCmd0\<lparr>vz := 0\<rparr>;
          posCmd = posCmd0\<lparr>vz := vz pos\<rparr>;
          accelCmd0 = accelCmdFF;
          kpPos = \<lparr>vx = kpPosXY q, vy = kpPosXY q, vz = 0\<rparr>;
          kpVel = \<lparr>vx = kpVelXY q, vy = kpVelXY q, vz = 0\<rparr>
      in
      andThen (capVelCmd q velCmd) (\<lambda>capVel.
      let accelCmd = V3F_add (V3F_add (V3F_mul kpPos (V3F_sub posCmd pos))
                                      (V3F_mul kpVel (V3F_sub capVel vel)))
                             accelCmd0
      in
      if mag accelCmd > maxAccelXY q
      then andThen (norm_V3F accelCmd) (\<lambda>n. Inr (V3F_scale n (maxAccelXY q)))
      else Inr accelCmd))"

section \<open>YawControl\<close>

text \<open>Lines 275 to 283: the desired yaw after the sign-aware modulo.\<close>

definition yawCmdToPi :: "real \<Rightarrow> real" where
  "yawCmdToPi yawCmd =
     (if yawCmd > 0 then fmodf yawCmd (2 * F_PI) else - fmodf (- yawCmd) (2 * F_PI))"

text \<open>Lines 285 to 294: the error \<open>err\<close> that the yaw rate is proportional to.\<close>

definition yawErr :: "real \<Rightarrow> real \<Rightarrow> real" where
  "yawErr yawCmd yaw =
     (let err0 = yawCmdToPi yawCmd - yaw;
          err1 = (if err0 > F_PI then err0 - 2 * F_PI else err0);
          err2 = (if err1 < - F_PI then err1 + 2 * F_PI else err1)
      in err2)"

definition YawControl :: "QuadControl \<Rightarrow> real \<Rightarrow> real \<Rightarrow> real" where
  "YawControl q yawCmd yaw = kpYaw q * yawErr yawCmd yaw"

section \<open>RunControl\<close>

text \<open>
  \<open>GetNextTrajectoryPoint\<close> belongs to \<open>BaseController\<close> and is not part of the source
  file; it is taken as a parameter. The result is the motor command and the controller
  after the tick.
\<close>

definition RunControl ::
  "QuadControl \<Rightarrow> (real \<Rightarrow> TrajectoryPoint) \<Rightarrow> real \<Rightarrow> real
     \<Rightarrow> (error + VehicleCommand) \<times> QuadControl" where
  "RunControl q GetNextTrajectoryPoint dt simTime =
     (let q1 = q\<lparr>curTrajPoint := GetNextTrajectoryPoint simTime\<rparr>;
          tp = curTrajPoint q1;
          (thrust, q2) = AltitudeControl q1 (vz (position tp)) (vz (velocity tp))
                           (vz (estPos q1)) (vz (estVel q1)) (estAtt q1) (vz (accel tp)) dt
      in (andThen thrust (\<lambda>collThrustCmd0.
          let thrustMargin = (1 / 10) * (maxMotorThrust q2 - minMotorThrust q2);
              collThrustCmd = CONSTRAIN collThrustCmd0
                                ((minMotorThrust q2 + thrustMargin) * 4)
                                ((maxMotorThrust q2 - thrustMargin) * 4)
          in
          andThen (LateralPositionControl q2 (position tp) (velocity tp)
                     (estPos q2) (estVel q2) (accel tp)) (\<lambda>desAcc.
          andThen (RollPitchControl q2 desAcc (estAtt q2) collThrustCmd) (\<lambda>desOmega0.
          let desOmega = desOmega0\<lparr>vz := YawControl q2 (Yaw (attitude tp)) (Yaw (estAtt q2))\<rparr>;
              desMoment = BodyRateControl q2 desOmega (estOmega q2)
          in GenerateMotorCommands q2 collThrustCmd desMoment))),
          q2))"

section \<open>Consecutive altitude ticks\<close>

text \<open>
  The arguments of one call of \<open>AltitudeControl\<close> besides \<open>dt\<close>, in the order of the
  source: \<open>posZCmd\<close>, \<open>velZCmd\<close>, \<open>posZ\<close>, \<open>velZ\<close>, \<open>attitude\<close>, \<open>accelZCmd\<close>.
  \<open>AltitudeTicks\<close> calls \<open>AltitudeControl\<close> once per element with the same \<open>dt\<close>, each
  call on the controller the call before has left, and lists the integrator before the
  first call and after every call.
\<close>

type_synonym AltitudeArgs = "real \<times> real \<times> real \<times> real \<times> Quaternion \<times> real"

fun AltitudeTicks :: "QuadControl \<Rightarrow> real \<Rightarrow> AltitudeArgs list \<Rightarrow> real list" where
  "AltitudeTicks q dt [] = [integratedAltitudeError q]"
| "AltitudeTicks q dt ((posZCmd, velZCmd, posZ, velZ, att, accelZCmd) # rest) =
     integratedAltitudeError q #
     AltitudeTicks (snd (AltitudeControl q posZCmd velZCmd posZ velZ att accelZCmd dt)) dt rest"

text \<open>The altitude error \<open>zErr = posZCmd - posZ\<close> (line 184) of one call.\<close>

definition zErr_of :: "AltitudeArgs \<Rightarrow> real" where
  "zErr_of a = (case a of (posZCmd, velZCmd, posZ, velZ, att, accelZCmd) \<Rightarrow> posZCmd - posZ)"

section \<open>The altitude law as the specification words it\<close>

text \<open>
  The specification's wording of lines 192 to 199, to be compared with
  \<open>AltitudeControl\<close>: the sum of the four terms is divided by \<open>R(2,2)\<close>, then the
  gravitational constant is subtracted; the thrust is \<open>-mass\<close> times that acceleration
  constrained to \<open>[-maxAscentRate/dt, maxAscentRate/dt]\<close>.
\<close>

definition AltitudeControl_spec ::
  "QuadControl \<Rightarrow> real \<Rightarrow> real \<Rightarrow> real \<Rightarrow> real \<Rightarrow> Quaternion \<Rightarrow> real \<Rightarrow> real
     \<Rightarrow> error + real" where
  "AltitudeControl_spec q posZCmd velZCmd posZ velZ att accelZCmd dt =
     (let zErr = posZCmd - posZ;
          pTerm = kpPosZ q * zErr;
          dTerm = kpVelZ q * (velZCmd - velZ) + velZ;
          iTerm = KiPosZ q * (integratedAltitudeError q + zErr * dt);
          u_1_bar = pTerm + dTerm + iTerm + accelZCmd
      in andThen (fdiv u_1_bar (RotationMatrix_IwrtB att 2 2)) (\<lambda>projected.
         andThen (fdiv (- maxAscentRate q) dt) (\<lambda>low.
         andThen (fdiv (maxAscentRate q) dt) (\<lambda>high.
         Inr (- mass q * CONSTRAIN (projected - CONST_GRAVITY q) low high)))))"

section \<open>Example data\<close>

text \<open>
  A level attitude, an attitude rolled by sixty degrees (so \<open>R(2,2) = 1/2\<close>), an
  attitude pitched by ninety degrees (so \<open>R(2,2) = 0\<close>), and a
  controller with the vehicle constants of the specification's scenario (mass 0.5 kg,
  arm length 0.17 m, kappa 0.016) at rest at the origin.
\<close>

definition level_attitude :: Quaternion where
  "level_attitude = \<lparr>RotationMatrix_IwrtB = (\<lambda>i j. if i = j then 1 else 0), Yaw = 0\<rparr>"

definition rolled_attitude :: Quaternion where
  "rolled_attitude =
     \<lparr>RotationMatrix_IwrtB =
        (\<lambda>i j. if i = 0 \<and> j = 0 then 1
               else if i = 1 \<and> j = 1 then 1 / 2
               else if i = 1 \<and> j = 2 then - (sqrt 3 / 2)
               else if i = 2 \<and> j = 1 then sqrt 3 / 2
               else if i = 2 \<and> j = 2 then 1 / 2
               else 0),
      Yaw = 0\<rparr>"


definition example_control :: QuadControl where
  "example_control =
     \<lparr>kpPosXY = 30, kpPosZ = 20, KiPosZ = 40, kpVelXY = 12, kpVelZ = 9,
      kpBank = 10, kpYaw = 2, kpPQR = \<lparr>vx = 90, vy = 90, vz = 6\<rparr>,
      maxDescentRate = 2, maxAscentRate = 5, maxSpeedXY = 5, maxAccelXY = 12,
      maxTiltAngle = 7 / 10, minMotorThrust = 1 / 10, maxMotorThrust = 45 / 10,
      mass = 1 / 2, L = 17 / 100, kappa = 16 / 1000,
      Ixx = 23 / 10000, Iyy = 23 / 10000, Izz = 46 / 10000,
      CONST_GRAVITY = 981 / 100,
      estPos = V3F_zero, estVel = V3F_zero, estAtt = level_attitude, estOmega = V3F_zero,
      curTrajPoint = \<lparr>position = V3F_zero, velocity = V3F_zero, accel = V3F_zero,
                       attitude = level_attitude\<rparr>,
      integratedAltitudeError = 0\<rparr>"

section \<open>Line 197 with the infinities of a float division by zero\<close>

text \<open>
  A float division by zero does not stop the program: a positive number divided by zero
  is \<open>+\<infinity>\<close>, a negative one \<open>-\<infinity>\<close>, and zero divided by zero is a NaN. \<open>xreal\<close> adds the two
  infinities to the reals, and \<open>xdiv\<close> is the division of two finite floats with its
  result among them; \<open>None\<close> stands for the NaN, which the model does not follow further
  (what \<open>CONSTRAIN\<close> makes of a NaN depends on the text of the macro). The real \<open>0\<close>
  stands for the float \<open>+0.0\<close>; rounding is not modelled.
\<close>

datatype xreal = Fin real | PInf | NInf

definition xdiv :: "real \<Rightarrow> real \<Rightarrow> xreal option" where
  "xdiv a b =
     (if b \<noteq> 0 then Some (Fin (a / b))
      else if 0 < a then Some PInf
      else if a < 0 then Some NInf
      else None)"

fun xle :: "xreal \<Rightarrow> xreal \<Rightarrow> bool" where
  "xle NInf b = True"
| "xle a PInf = True"
| "xle (Fin a) (Fin b) = (a \<le> b)"
| "xle a b = False"

definition xmin :: "xreal \<Rightarrow> xreal \<Rightarrow> xreal" where
  "xmin a b = (if xle a b then a else b)"

definition xmax :: "xreal \<Rightarrow> xreal \<Rightarrow> xreal" where
  "xmax a b = (if xle a b then b else a)"

text \<open>
  Modelled from the spec: \<open>CONSTRAIN\<close> as above, the clamp, on values that may be
  infinite.
\<close>

definition xCONSTRAIN :: "xreal \<Rightarrow> xreal \<Rightarrow> xreal \<Rightarrow> xreal" where
  "xCONSTRAIN a low high = xmax low (xmin a high)"

text \<open>The product of a finite float and a value that may be infinite.\<close>

definition xscale :: "real \<Rightarrow> xreal \<Rightarrow> xreal option" where
  "xscale m a =
     (case a of
        Fin r \<Rightarrow> Some (Fin (m * r))
      | PInf \<Rightarrow> (if 0 < m then Some PInf else if m < 0 then Some NInf else None)
      | NInf \<Rightarrow> (if 0 < m then Some NInf else if m < 0 then Some PInf else None))"

text \<open>Line 197: the two bounds \<open>- maxAscentRate / dt\<close> and \<open>maxAscentRate / dt\<close>.\<close>

definition ascentBounds :: "QuadControl \<Rightarrow> real \<Rightarrow> xreal option \<times> xreal option" where
  "ascentBounds q dt = (xdiv (- maxAscentRate q) dt, xdiv (maxAscentRate q) dt)"

text \<open>
  Lines 184 to 199 once more, with these divisions: the thrust that \<open>AltitudeControl\<close>
  returns, also where a divisor is zero. The integrator is updated as in
  \<open>AltitudeControl\<close>.
\<close>

definition AltitudeControl_ext ::
  "QuadControl \<Rightarrow> real \<Rightarrow> real \<Rightarrow> real \<Rightarrow> real \<Rightarrow> Quaternion \<Rightarrow> real \<Rightarrow> real
     \<Rightarrow> xreal option" where
  "AltitudeControl_ext q posZCmd velZCmd posZ velZ att accelZCmd dt =
     (let R = RotationMatrix_IwrtB att;
          zErr = posZCmd - posZ;
          pTerm = kpPosZ q * zErr;
          z_dot_err = velZCmd - velZ;
          integrated = integratedAltitudeError q + zErr * dt;
          dTerm = kpVelZ q * z_dot_err + velZ;
          iTerm = KiPosZ q * integrated;
          b_z = R 2 2;
          u_1_bar = pTerm + dTerm + iTerm + accelZCmd
      in Option.bind (xdiv (u_1_bar - CONST_GRAVITY q) b_z) (\<lambda>acc.
         case ascentBounds q dt of
           (Some low, Some high) \<Rightarrow> xscale (- mass q) (xCONSTRAIN acc low high)
         | _ \<Rightarrow> None))"

text \<open>
  The specification's guard, to be compared with \<open>AltitudeControl_ext\<close>: the same
  law, but the bounds divide by \<open>dt\<close> clamped from below to a minimum \<open>dtMin\<close>.
\<close>

definition AltitudeControl_guarded ::
  "real \<Rightarrow> QuadControl \<Rightarrow> real \<Rightarrow> real \<Rightarrow> real \<Rightarrow> real \<Rightarrow> Quaternion \<Rightarrow> real \<Rightarrow> real
     \<Rightarrow> xreal option" where
  "AltitudeControl_guarded dtMin q posZCmd velZCmd posZ velZ att accelZCmd dt =
     (let zErr = posZCmd - posZ;
          pTerm = kpPosZ q * zErr;
          dTerm = kpVelZ q * (velZCmd - velZ) + velZ;
          iTerm = KiPosZ q * (integratedAltitudeError q + zErr * dt);
          u_1_bar = pTerm + dTerm + iTerm + accelZCmd
      in Option.bind (xdiv (u_1_bar - CONST_GRAVITY q) (RotationMatrix_IwrtB att 2 2)) (\<lambda>acc.
         case ascentBounds q (max dt dtMin) of
           (Some low, Some high) \<Rightarrow> xscale (- mass q) (xCONSTRAIN acc low high)
         | _ \<Rightarrow> None))"

section \<open>Lines 68 to 87 in binary32 arithmetic\<close>

text \<open>
  A C++ \<open>float\<close> is an IEEE binary32 number: every operation returns the exact result
  rounded to 24 significant bits, the nearest such number, a tie going to the even
  significand. \<open>roundEven\<close> rounds to the nearest integer, ties to even.
\<close>

definition roundEven :: "real \<Rightarrow> int" where
  "roundEven y =
     (let f = \<lfloor>y\<rfloor>; d = y - real_of_int f
      in if d < 1 / 2 then f
         else if 1 / 2 < d then f + 1
         else if even f then f else f + 1)"

text \<open>
  \<open>scale24 n m u\<close> looks for the unit in the last place of the magnitude \<open>m > 0\<close>: the
  power of two \<open>u\<close> with \<open>2^23 * u \<le> m < 2^24 * u\<close>, by halving or doubling \<open>u\<close> at most
  \<open>n\<close> times.
\<close>

fun scale24 :: "nat \<Rightarrow> real \<Rightarrow> real \<Rightarrow> real option" where
  "scale24 0 m u = None"
| "scale24 (Suc n) m u =
     (if m < 8388608 * u then scale24 n m (u / 2)
      else if 16777216 * u \<le> m then scale24 n m (u * 2)
      else Some u)"

text \<open>
  \<open>binary32 x\<close> is the binary32 number that the exact result \<open>x\<close> rounds to, in the range
  of the normal numbers: the search from the unit \<open>1\<close> reaches the units \<open>2^-149\<close> and
  above. \<open>None\<close> is a result outside this range (a subnormal number, or an overflow to
  an infinity), which the model does not follow.
\<close>

definition binary32 :: "real \<Rightarrow> real option" where
  "binary32 x =
     (if x = 0 then Some 0
      else case scale24 150 \<bar>x\<bar> 1 of
             None \<Rightarrow> None
           | Some u \<Rightarrow>
               (let r = real_of_int (roundEven (\<bar>x\<bar> / u)) * u
                in if r < 2 ^ 128 then Some (sgn x * r) else None))"

text \<open>\<open>sqrtf(2.f)\<close>: the binary32 number nearest to the square root of two.\<close>

definition sqrtf_2 :: real where
  "sqrtf_2 = 11863283 / 8388608"

text \<open>The quotient of two floats, rounded; a zero divisor is outside this model.\<close>

definition f32_div :: "real \<Rightarrow> real \<Rightarrow> real option" where
  "f32_div a b = (if b = 0 then None else binary32 (a / b))"

text \<open>
  \<open>(a + b + c + d) / 4.f\<close> as C++ evaluates it: from the left, every sum and the
  quotient rounded. A term the source subtracts is passed negated: negation is exact and
  \<open>a - b\<close> is \<open>a + (-b)\<close> in binary32.
\<close>

definition f32_quarter_sum :: "real \<Rightarrow> real \<Rightarrow> real \<Rightarrow> real \<Rightarrow> real option" where
  "f32_quarter_sum a b c d =
     Option.bind (binary32 (a + b)) (\<lambda>s1.
     Option.bind (binary32 (s1 + c)) (\<lambda>s2.
     Option.bind (binary32 (s2 + d)) (\<lambda>s3.
     binary32 (s3 / 4))))"

text \<open>
  Lines 68 to 87 on binary32 inputs: the four thrusts before they are constrained, as
  the program computes them.
\<close>

definition motorThrusts_binary32 :: "QuadControl \<Rightarrow> real \<Rightarrow> V3F \<Rightarrow> real list option" where
  "motorThrusts_binary32 q collThrustCmd momentCmd =
     Option.bind (f32_div (L q) sqrtf_2) (\<lambda>l.
     Option.bind (f32_div (vx momentCmd) l) (\<lambda>t1.
     Option.bind (f32_div (vy momentCmd) l) (\<lambda>t2.
     Option.bind (f32_div (- vz momentCmd) (kappa q)) (\<lambda>t3.
     let t4 = collThrustCmd in
     Option.bind (f32_quarter_sum t1 t2 t3 t4) (\<lambda>frontLeft.
     Option.bind (f32_quarter_sum (- t1) t2 (- t3) t4) (\<lambda>frontRight.
     Option.bind (f32_quarter_sum t1 (- t2) (- t3) t4) (\<lambda>rearLeft.
     Option.bind (f32_quarter_sum (- t1) (- t2) t3 t4) (\<lambda>rearRight.
     Some [frontLeft, frontRight, rearLeft, rearRight]))))))))"

section \<open>Basic facts\<close>

lemma andThen_Inr [simp]: "andThen (Inr v) f = f v"
  by (simp add: andThen_def)

lemma andThen_Inl [simp]: "andThen (Inl e) f = Inl e"
  by (simp add: andThen_def)

lemma fdiv_nonzero [simp]: "b \<noteq> 0 \<Longrightarrow> fdiv a b = Inr (a / b)"
  by (simp add: fdiv_def)

lemma fdiv_zero [simp]: "fdiv a 0 = Inl DivisionByZero"
  by (simp add: fdiv_def)

lemma CONSTRAIN_range:
  "low \<le> high \<Longrightarrow> low \<le> CONSTRAIN a low high \<and> CONSTRAIN a low high \<le> high"
  by (simp add: CONSTRAIN_def)

section \<open>The mixer\<close>

lemma motorThrusts_value:
  assumes "L q \<noteq> 0" and "kappa q \<noteq> 0"
  shows "\<exists>t1 t2 t3. motorThrusts q T M =
    Inr [(t1 + t2 + t3 + T) / 4, (- t1 + t2 - t3 + T) / 4,
         (t1 - t2 - t3 + T) / 4, (- t1 - t2 + t3 + T) / 4]"
  using assms
  by (intro exI [of _ "vx M / (L q / sqrt 2)"] exI [of _ "vy M / (L q / sqrt 2)"]
        exI [of _ "- vz M / kappa q"])
     (simp add: motorThrusts_def Let_def)

lemma motorThrusts_undefined:
  assumes "L q = 0 \<or> kappa q = 0"
  shows "motorThrusts q T M = Inl DivisionByZero"
  using assms by (auto simp add: motorThrusts_def Let_def fdiv_def)

lemma mix_sum:
  "sum_list [(t1 + t2 + t3 + T) / 4, (- t1 + t2 - t3 + T) / 4,
             (t1 - t2 - t3 + T) / 4, (- t1 - t2 + t3 + T) / 4] = (T::real)"
  by (simp add: field_simps)

lemma scale24_numeral [simp]:
  "scale24 (numeral k) m u =
     (if m < 8388608 * u then scale24 (pred_numeral k) m (u / 2)
      else if 16777216 * u \<le> m then scale24 (pred_numeral k) m (u * 2)
      else Some u)"
  by (simp add: numeral_eq_Suc)

text \<open>\<open>sqrtf_2\<close> is within half a unit in the last place, \<open>2^-24\<close>, of the square root of two.\<close>

lemma sqrtf_2_nearest:
  "sqrtf_2 - 1 / 2 ^ 24 < sqrt 2 \<and> sqrt 2 < sqrtf_2 + 1 / 2 ^ 24"
proof
  have "(sqrtf_2 - 1 / 2 ^ 24)\<^sup>2 < 2"
    by (simp add: sqrtf_2_def power2_eq_square)
  then show "sqrtf_2 - 1 / 2 ^ 24 < sqrt 2"
    by (rule real_less_rsqrt)
next
  have "2 < (sqrtf_2 + 1 / 2 ^ 24)\<^sup>2"
    by (simp add: sqrtf_2_def power2_eq_square)
  moreover have "0 \<le> sqrtf_2 + 1 / 2 ^ 24"
    by (simp add: sqrtf_2_def)
  ultimately show "sqrt 2 < sqrtf_2 + 1 / 2 ^ 24"
    by (simp add: real_less_lsqrt)
qed

text \<open>Two roundings: \<open>0.1\<close> is no binary32 number, and \<open>2^25 + 1\<close> loses its last bit.\<close>

lemma binary32_examples:
  "binary32 (1 / 10) = Some (13421773 / 134217728)"
  "binary32 33554433 = Some 33554432"
  "binary32 (- 33554431) = Some (- 33554432)"
  by (simp_all add: binary32_def roundEven_def Let_def)

text \<open>
  For claim C10, as it is stated of the program: with the collective thrust \<open>1\<close>, the
  yaw moment \<open>-524288\<close> and \<open>kappa = 1/64\<close>, \<open>t3\<close> is \<open>2^25\<close>; in binary32 both \<open>2^25 + 1\<close>
  and \<open>-2^25 + 1\<close> round to \<open>\<plusminus>2^25\<close>, the four thrusts are \<open>\<plusminus>8388608\<close> and their sum is
  \<open>0\<close>, not \<open>1\<close>.
\<close>

theorem motorThrusts_binary32_sum_off:
  "motorThrusts_binary32 (example_control\<lparr>L := 1 / 4, kappa := 1 / 64\<rparr>) 1
      \<lparr>vx = 0, vy = 0, vz = - 524288\<rparr>
     = Some [8388608, - 8388608, - 8388608, 8388608]
   \<and> sum_list [8388608, - 8388608, - 8388608, 8388608] = (0 :: real)"
  by (simp add: motorThrusts_binary32_def f32_div_def f32_quarter_sum_def sqrtf_2_def
      binary32_def roundEven_def Let_def example_control_def)

text \<open>
  Claim C10, amended: in exact arithmetic, for every collective thrust command and
  every moment command, the four motor thrusts of lines 84 to 87, before the
  constraining step, add up to the collective thrust command: the terms \<open>t1\<close>, \<open>t2\<close>,
  \<open>t3\<close> derived from the moment cancel. (In the binary32 arithmetic of the program every
  operation rounds, and the sum equals the command up to rounding only.) The arm
  length \<open>L\<close> and \<open>kappa\<close> are the divisors of those terms and are taken non-zero.
\<close>

theorem motorThrusts_sum:
  assumes "L q \<noteq> 0" and "kappa q \<noteq> 0"
  shows "\<exists>ts. motorThrusts q T M = Inr ts \<and> length ts = 4 \<and> sum_list ts = T"
proof -
  from motorThrusts_value [OF assms] obtain t1 t2 t3 where
    "motorThrusts q T M =
       Inr [(t1 + t2 + t3 + T) / 4, (- t1 + t2 - t3 + T) / 4,
            (t1 - t2 - t3 + T) / 4, (- t1 - t2 + t3 + T) / 4]"
    by blast
  then show ?thesis
    using mix_sum [of t1 t2 t3 T] by simp
qed

theorem motorThrusts_sum_witness:
  "L example_control \<noteq> 0 \<and> kappa example_control \<noteq> 0 \<and>
   (\<exists>ts. motorThrusts example_control (45 / 10) \<lparr>vx = 1, vy = 2, vz = 3\<rparr> = Inr ts \<and>
      length ts = 4 \<and> sum_list ts = 45 / 10)"
  using motorThrusts_sum [of example_control "45 / 10" "\<lparr>vx = 1, vy = 2, vz = 3\<rparr>"]
  by (simp add: example_control_def)

text \<open>
  Claim C1: when \<open>minMotorThrust \<le> maxMotorThrust\<close>, for every collective thrust
  command and every moment command \<open>GenerateMotorCommands\<close> returns four motor
  thrusts, each of them within \<open>[minMotorThrust, maxMotorThrust]\<close>. The arm length \<open>L\<close>
  and \<open>kappa\<close> are divisors in the mixer and are taken non-zero.
\<close>

theorem GenerateMotorCommands_range:
  assumes "minMotorThrust q \<le> maxMotorThrust q" and "L q \<noteq> 0" and "kappa q \<noteq> 0"
  shows "\<exists>cmd. GenerateMotorCommands q T M = Inr cmd \<and> length (desiredThrustsN cmd) = 4 \<and>
    (\<forall>t \<in> set (desiredThrustsN cmd). minMotorThrust q \<le> t \<and> t \<le> maxMotorThrust q)"
  using CONSTRAIN_range [OF assms(1)] motorThrusts_value [OF assms(2,3), of T M]
  by (auto simp add: GenerateMotorCommands_def)

theorem GenerateMotorCommands_range_witness:
  "minMotorThrust example_control \<le> maxMotorThrust example_control \<and>
   L example_control \<noteq> 0 \<and> kappa example_control \<noteq> 0 \<and>
   GenerateMotorCommands example_control 40 \<lparr>vx = 0, vy = 0, vz = 3\<rparr> =
     Inr \<lparr>desiredThrustsN = [1 / 10, 45 / 10, 45 / 10, 1 / 10]\<rparr>"
  using GenerateMotorCommands_range [of example_control 40 "\<lparr>vx = 0, vy = 0, vz = 3\<rparr>"]
  by (simp add: example_control_def GenerateMotorCommands_def motorThrusts_def Let_def
      CONSTRAIN_def)

text \<open>
  Claim C7: with a zero moment on all three axes, for every collective thrust \<open>T\<close> the
  four motor thrusts of \<open>GenerateMotorCommands\<close> all equal \<open>T / 4\<close> constrained to
  \<open>[minMotorThrust, maxMotorThrust]\<close>, and the four thrusts before constraining all
  equal \<open>T / 4\<close>; with \<open>L = 0.17\<close>, \<open>kappa = 0.016\<close> and \<open>T = 4.5\<close> each thrust before
  constraining is \<open>1.125\<close>. \<open>L\<close> and \<open>kappa\<close> are taken non-zero.
\<close>

theorem GenerateMotorCommands_zero_moment:
  assumes "L q \<noteq> 0" and "kappa q \<noteq> 0"
  shows "GenerateMotorCommands q T V3F_zero =
      Inr \<lparr>desiredThrustsN =
             replicate 4 (CONSTRAIN (T / 4) (minMotorThrust q) (maxMotorThrust q))\<rparr>
    \<and> motorThrusts q T V3F_zero = Inr (replicate 4 (T / 4))
    \<and> motorThrusts (q\<lparr>L := 17 / 100, kappa := 16 / 1000\<rparr>) (45 / 10) V3F_zero =
        Inr (replicate 4 (1125 / 1000))"
  using assms
  by (simp add: GenerateMotorCommands_def motorThrusts_def Let_def V3F_zero_def numeral_eq_Suc)

theorem GenerateMotorCommands_zero_moment_witness:
  "L example_control \<noteq> 0 \<and> kappa example_control \<noteq> 0 \<and>
   GenerateMotorCommands example_control (45 / 10) V3F_zero =
     Inr \<lparr>desiredThrustsN = [9 / 8, 9 / 8, 9 / 8, 9 / 8]\<rparr>"
  using GenerateMotorCommands_zero_moment [of example_control "45 / 10"]
  by (simp add: example_control_def CONSTRAIN_def numeral_eq_Suc)

section \<open>Roll and pitch\<close>

text \<open>
  Claim C5: for every desired acceleration and every attitude, a collective thrust
  command that is zero or negative makes \<open>RollPitchControl\<close> return the body rates
  \<open>(0, 0, 0)\<close>.
\<close>

theorem RollPitchControl_no_thrust:
  assumes "collThrustCmd \<le> 0"
  shows "RollPitchControl q accelCmd att collThrustCmd = Inr \<lparr>vx = 0, vy = 0, vz = 0\<rparr>"
  using assms by (simp add: RollPitchControl_def)

theorem RollPitchControl_no_thrust_witness:
  "(0::real) \<le> 0 \<and>
   RollPitchControl example_control \<lparr>vx = 3, vy = - 4, vz = 1\<rparr> rolled_attitude 0 =
     Inr \<lparr>vx = 0, vy = 0, vz = 0\<rparr>"
  using RollPitchControl_no_thrust [of 0 example_control "\<lparr>vx = 3, vy = - 4, vz = 1\<rparr>"
      rolled_attitude]
  by simp

section \<open>Altitude\<close>

lemma xCONSTRAIN_unbounded [simp]: "xCONSTRAIN a NInf PInf = a"
  by (cases a) (simp_all add: xCONSTRAIN_def xmin_def xmax_def)

lemma xCONSTRAIN_Fin [simp]:
  "xCONSTRAIN (Fin a) (Fin low) (Fin high) = Fin (CONSTRAIN a low high)"
  by (simp add: xCONSTRAIN_def xmin_def xmax_def CONSTRAIN_def min_def max_def)


lemma ascentBounds_nonzero:
  "dt \<noteq> 0 \<Longrightarrow>
     ascentBounds q dt = (Some (Fin (- maxAscentRate q / dt)), Some (Fin (maxAscentRate q / dt)))"
  by (simp add: ascentBounds_def xdiv_def)

text \<open>
  Where no divisor is zero, \<open>AltitudeControl_ext\<close> returns the thrust of
  \<open>AltitudeControl\<close>.
\<close>

lemma AltitudeControl_ext_agrees:
  assumes "RotationMatrix_IwrtB att 2 2 \<noteq> 0" and "dt \<noteq> 0"
    and "fst (AltitudeControl q posZCmd velZCmd posZ velZ att accelZCmd dt) = Inr thrust"
  shows "AltitudeControl_ext q posZCmd velZCmd posZ velZ att accelZCmd dt = Some (Fin thrust)"
  using assms
  by (auto simp add: AltitudeControl_ext_def AltitudeControl_def Let_def ascentBounds_nonzero
      xdiv_def xscale_def)


text \<open>No minimum clamp, whatever its value, gives what the source returns at \<open>dt = 0\<close>.\<close>

lemma AltitudeControl_no_dt_guard:
  "\<not> (\<exists>dtMin>0. \<forall>accelZCmd.
         AltitudeControl_ext example_control 0 0 0 0 level_attitude accelZCmd 0
           = AltitudeControl_guarded dtMin example_control 0 0 0 0 level_attitude accelZCmd 0)"
proof
  assume "\<exists>dtMin>0. \<forall>accelZCmd.
         AltitudeControl_ext example_control 0 0 0 0 level_attitude accelZCmd 0
           = AltitudeControl_guarded dtMin example_control 0 0 0 0 level_attitude accelZCmd 0"
  then obtain dtMin where pos: "0 < dtMin"
    and eq: "\<And>accelZCmd. AltitudeControl_ext example_control 0 0 0 0 level_attitude accelZCmd 0
           = AltitudeControl_guarded dtMin example_control 0 0 0 0 level_attitude accelZCmd 0"
    by blast
  from pos have m: "max 0 dtMin = dtMin" by simp
  have "AltitudeControl_ext example_control 0 0 0 0 level_attitude (981 / 100 + 10 / dtMin) 0
      = Some (Fin (- (5 / dtMin)))"
    by (simp add: AltitudeControl_ext_def Let_def ascentBounds_def xdiv_def xscale_def
        example_control_def level_attitude_def)
  moreover from pos have "AltitudeControl_guarded dtMin example_control 0 0 0 0 level_attitude
      (981 / 100 + 10 / dtMin) 0 = Some (Fin (- (5 / (2 * dtMin))))"
    by (simp add: AltitudeControl_guarded_def Let_def m ascentBounds_def xdiv_def xscale_def
        example_control_def level_attitude_def CONSTRAIN_def min_def max_def field_simps)
  ultimately have "5 / dtMin = 5 / (2 * dtMin)"
    using eq [of "981 / 100 + 10 / dtMin"] by simp
  with pos show False by (simp add: field_simps)
qed



text \<open>
  For claim C4, as the specification words it: on a vehicle rolled by sixty degrees
  (\<open>R(2,2) = 1/2\<close>) at rest on its setpoint, the source commands the thrust \<open>9.81\<close>,
  the specification's order of operations \<open>4.905\<close>.
\<close>

theorem AltitudeControl_differs_from_spec:
  "fst (AltitudeControl example_control 0 0 0 0 rolled_attitude 0 (1 / 100)) = Inr (981 / 100)
   \<and> AltitudeControl_spec example_control 0 0 0 0 rolled_attitude 0 (1 / 100) = Inr (981 / 200)
   \<and> fst (AltitudeControl example_control 0 0 0 0 rolled_attitude 0 (1 / 100))
       \<noteq> AltitudeControl_spec example_control 0 0 0 0 rolled_attitude 0 (1 / 100)"
  by (simp add: AltitudeControl_def AltitudeControl_spec_def Let_def example_control_def
      rolled_attitude_def CONSTRAIN_def)

text \<open>
  Claim C4, amended: \<open>AltitudeControl\<close> sums the proportional, derivative-like,
  integral and feed-forward terms, subtracts the gravitational constant from that sum
  and then divides the difference by \<open>R(2,2)\<close>; the thrust returned is \<open>-mass\<close> times
  this acceleration constrained to \<open>[-maxAscentRate/dt, maxAscentRate/dt]\<close>.
\<close>

theorem AltitudeControl_value:
  assumes "RotationMatrix_IwrtB att 2 2 \<noteq> 0" and "dt \<noteq> 0"
  shows "fst (AltitudeControl q posZCmd velZCmd posZ velZ att accelZCmd dt) =
     Inr (- mass q *
          CONSTRAIN ((kpPosZ q * (posZCmd - posZ)
                      + (kpVelZ q * (velZCmd - velZ) + velZ)
                      + KiPosZ q * (integratedAltitudeError q + (posZCmd - posZ) * dt)
                      + accelZCmd
                      - CONST_GRAVITY q) / RotationMatrix_IwrtB att 2 2)
                    (- maxAscentRate q / dt) (maxAscentRate q / dt))"
  using assms by (simp add: AltitudeControl_def Let_def)

theorem AltitudeControl_value_witness:
  "RotationMatrix_IwrtB rolled_attitude 2 2 \<noteq> 0 \<and> (1 / 100 :: real) \<noteq> 0 \<and>
   fst (AltitudeControl example_control 1 0 0 0 rolled_attitude 0 (1 / 100)) = Inr (- (1059 / 100))"
  using AltitudeControl_value [of rolled_attitude "1 / 100" example_control 1 0 0 0 0]
  by (simp add: rolled_attitude_def example_control_def CONSTRAIN_def)

lemma AltitudeControl_integrator:
  "integratedAltitudeError (snd (AltitudeControl q posZCmd velZCmd posZ velZ att accelZCmd dt))
     = integratedAltitudeError q + (posZCmd - posZ) * dt"
  by (simp add: AltitudeControl_def Let_def)

text \<open>
  With a factor \<open>s\<close> for the sign: if \<open>s * zErr\<close> is never negative, no later value
  of the integrator, multiplied by \<open>s\<close>, is below the present one.
\<close>

lemma AltitudeTicks_bound:
  assumes "0 < dt" and "\<forall>a \<in> set ticks. 0 \<le> s * zErr_of a"
  shows "\<forall>y \<in> set (AltitudeTicks q dt ticks). s * integratedAltitudeError q \<le> s * y"
  using assms(2)
proof (induction ticks arbitrary: q)
  case Nil
  then show ?case by simp
next
  case (Cons a rest)
  obtain posZCmd velZCmd posZ velZ att accelZCmd
    where a: "a = (posZCmd, velZCmd, posZ, velZ, att, accelZCmd)"
    by (cases a) auto
  let ?q' = "snd (AltitudeControl q posZCmd velZCmd posZ velZ att accelZCmd dt)"
  from Cons.prems a have "0 \<le> s * (posZCmd - posZ)" by (simp add: zErr_of_def)
  with \<open>0 < dt\<close> have "0 \<le> s * (posZCmd - posZ) * dt" by simp
  then have step: "s * integratedAltitudeError q \<le> s * integratedAltitudeError ?q'"
    by (simp add: AltitudeControl_integrator algebra_simps)
  from Cons.IH [of ?q'] Cons.prems
  have "\<forall>y \<in> set (AltitudeTicks ?q' dt rest). s * integratedAltitudeError ?q' \<le> s * y"
    by simp
  with step show ?case by (auto simp add: a)
qed

lemma AltitudeTicks_monotone:
  assumes "0 < dt" and "\<forall>a \<in> set ticks. 0 \<le> s * zErr_of a"
  shows "sorted_wrt (\<lambda>x y. s * x \<le> s * y) (AltitudeTicks q dt ticks)"
  using assms(2)
proof (induction ticks arbitrary: q)
  case Nil
  then show ?case by simp
next
  case (Cons a rest)
  obtain posZCmd velZCmd posZ velZ att accelZCmd
    where a: "a = (posZCmd, velZCmd, posZ, velZ, att, accelZCmd)"
    by (cases a) auto
  let ?q' = "snd (AltitudeControl q posZCmd velZCmd posZ velZ att accelZCmd dt)"
  from AltitudeTicks_bound [OF assms(1) Cons.prems, of q]
  have "\<forall>y \<in> set (AltitudeTicks ?q' dt rest). s * integratedAltitudeError q \<le> s * y"
    by (simp add: a)
  moreover from Cons.IH [of ?q'] Cons.prems
  have "sorted_wrt (\<lambda>x y. s * x \<le> s * y) (AltitudeTicks ?q' dt rest)" by simp
  ultimately show ?case by (simp add: a)
qed

text \<open>
  Claim C6: every call of \<open>AltitudeControl\<close> adds exactly \<open>(posZCmd - posZ) * dt\<close> to
  the integrator, with no clamp. Hence over consecutive calls with the same \<open>dt > 0\<close>
  the integrator never decreases while the altitude error is never negative, and never
  increases while the altitude error is never positive.
\<close>

theorem AltitudeControl_integrator_monotone:
  "integratedAltitudeError (snd (AltitudeControl q posZCmd velZCmd posZ velZ att accelZCmd dt))
     = integratedAltitudeError q + (posZCmd - posZ) * dt
   \<and> (0 < dt \<and> (\<forall>a \<in> set ticks. 0 \<le> zErr_of a) \<longrightarrow>
        sorted_wrt (\<lambda>x y. x \<le> y) (AltitudeTicks q dt ticks))
   \<and> (0 < dt \<and> (\<forall>a \<in> set ticks. zErr_of a \<le> 0) \<longrightarrow>
        sorted_wrt (\<lambda>x y. y \<le> x) (AltitudeTicks q dt ticks))"
  using AltitudeTicks_monotone [of dt ticks 1 q] AltitudeTicks_monotone [of dt ticks "- 1" q]
  by (simp add: AltitudeControl_integrator)

theorem AltitudeControl_integrator_monotone_witness:
  "(0::real) < 1 / 100
   \<and> 0 \<le> zErr_of (1, 0, 0, 0, level_attitude, 0)
   \<and> 0 \<le> zErr_of (2, 0, 0, 0, level_attitude, 0)
   \<and> AltitudeTicks example_control (1 / 100)
        [(1, 0, 0, 0, level_attitude, 0), (2, 0, 0, 0, level_attitude, 0)]
       = [0, 1 / 100, 3 / 100]
   \<and> zErr_of (- 1, 0, 0, 0, level_attitude, 0) \<le> 0
   \<and> zErr_of (- 2, 0, 0, 0, level_attitude, 0) \<le> 0
   \<and> AltitudeTicks example_control (1 / 100)
        [(- 1, 0, 0, 0, level_attitude, 0), (- 2, 0, 0, 0, level_attitude, 0)]
       = [0, - (1 / 100), - (3 / 100)]"
  using AltitudeControl_integrator_monotone [of example_control 1 0 0 0 level_attitude 0 "1 / 100"
          "[(1, 0, 0, 0, level_attitude, 0), (2, 0, 0, 0, level_attitude, 0)]"]
        AltitudeControl_integrator_monotone [of example_control 1 0 0 0 level_attitude 0 "1 / 100"
          "[(- 1, 0, 0, 0, level_attitude, 0), (- 2, 0, 0, 0, level_attitude, 0)]"]
  by (simp add: zErr_of_def AltitudeControl_def Let_def example_control_def)

section \<open>The parameter maxDescentRate\<close>

lemma GenerateMotorCommands_ignores_maxDescentRate:
  "GenerateMotorCommands (q\<lparr>maxDescentRate := d\<rparr>) T M = GenerateMotorCommands q T M"
  by (simp add: GenerateMotorCommands_def motorThrusts_def)

lemma BodyRateControl_ignores_maxDescentRate:
  "BodyRateControl (q\<lparr>maxDescentRate := d\<rparr>) a b = BodyRateControl q a b"
  by (simp add: BodyRateControl_def)

lemma RollPitchControl_ignores_maxDescentRate:
  "RollPitchControl (q\<lparr>maxDescentRate := d\<rparr>) a att T = RollPitchControl q a att T"
  by (simp add: RollPitchControl_def cong: if_cong)

lemma YawControl_ignores_maxDescentRate:
  "YawControl (q\<lparr>maxDescentRate := d\<rparr>) a b = YawControl q a b"
  by (simp add: YawControl_def)

lemma LateralPositionControl_ignores_maxDescentRate:
  "LateralPositionControl (q\<lparr>maxDescentRate := d\<rparr>) a b c e f =
     LateralPositionControl q a b c e f"
  by (simp add: LateralPositionControl_def capVelCmd_def cong: if_cong)

lemma AltitudeControl_ignores_maxDescentRate:
  "AltitudeControl (q\<lparr>maxDescentRate := d\<rparr>) posZCmd velZCmd posZ velZ att accelZCmd dt =
     (fst (AltitudeControl q posZCmd velZCmd posZ velZ att accelZCmd dt),
      (snd (AltitudeControl q posZCmd velZCmd posZ velZ att accelZCmd dt))\<lparr>maxDescentRate := d\<rparr>)"
  by (simp add: AltitudeControl_def Let_def)

text \<open>
  Claim C9: the parameter \<open>maxDescentRate\<close> has no effect. Two calls of
  \<open>AltitudeControl\<close>, or two ticks of \<open>RunControl\<close>, on controllers that differ in
  \<open>maxDescentRate\<close> only return the same thrust and the same motor command, and leave
  controllers that again differ in \<open>maxDescentRate\<close> only: the integrator is the same.
\<close>

theorem maxDescentRate_unused:
  "AltitudeControl (q\<lparr>maxDescentRate := d\<rparr>) posZCmd velZCmd posZ velZ att accelZCmd dt =
     (fst (AltitudeControl q posZCmd velZCmd posZ velZ att accelZCmd dt),
      (snd (AltitudeControl q posZCmd velZCmd posZ velZ att accelZCmd dt))\<lparr>maxDescentRate := d\<rparr>)
   \<and> RunControl (q\<lparr>maxDescentRate := d\<rparr>) traj dt simTime =
     (fst (RunControl q traj dt simTime),
      (snd (RunControl q traj dt simTime))\<lparr>maxDescentRate := d\<rparr>)"
proof
  show "AltitudeControl (q\<lparr>maxDescentRate := d\<rparr>) posZCmd velZCmd posZ velZ att accelZCmd dt =
     (fst (AltitudeControl q posZCmd velZCmd posZ velZ att accelZCmd dt),
      (snd (AltitudeControl q posZCmd velZCmd posZ velZ att accelZCmd dt))\<lparr>maxDescentRate := d\<rparr>)"
    by (rule AltitudeControl_ignores_maxDescentRate)
next
  have swap: "q\<lparr>maxDescentRate := d\<rparr>\<lparr>curTrajPoint := traj simTime\<rparr>
      = (q\<lparr>curTrajPoint := traj simTime\<rparr>)\<lparr>maxDescentRate := d\<rparr>"
    by simp
  show "RunControl (q\<lparr>maxDescentRate := d\<rparr>) traj dt simTime =
     (fst (RunControl q traj dt simTime),
      (snd (RunControl q traj dt simTime))\<lparr>maxDescentRate := d\<rparr>)"
    unfolding RunControl_def Let_def swap
    by (simp add: split_def AltitudeControl_ignores_maxDescentRate
        GenerateMotorCommands_ignores_maxDescentRate BodyRateControl_ignores_maxDescentRate
        RollPitchControl_ignores_maxDescentRate YawControl_ignores_maxDescentRate
        LateralPositionControl_ignores_maxDescentRate)
qed

section \<open>Yaw\<close>

lemma fmodf_range:
  assumes "0 \<le> a" and "0 < b"
  shows "0 \<le> fmodf a b \<and> fmodf a b < b"
proof -
  let ?n = "real_of_int \<lfloor>a / b\<rfloor>"
  from assms have r: "0 \<le> a / b" by simp
  then have eq: "fmodf a b = a - ?n * b" by (simp add: fmodf_def Let_def)
  have "?n * b \<le> (a / b) * b"
    by (rule mult_right_mono) (use \<open>0 < b\<close> in simp_all)
  with \<open>0 < b\<close> have lo: "?n * b \<le> a" by simp
  have "a / b < ?n + 1" by linarith
  then have "(a / b) * b < (?n + 1) * b"
    using \<open>0 < b\<close> by (rule mult_strict_right_mono)
  with \<open>0 < b\<close> have hi: "a < (?n + 1) * b" by simp
  from lo hi show ?thesis unfolding eq by (simp add: algebra_simps)
qed

lemma yawCmdToPi_range:
  "(0 < yawCmd \<longrightarrow> 0 \<le> yawCmdToPi yawCmd \<and> yawCmdToPi yawCmd < 2 * pi) \<and>
   (yawCmd \<le> 0 \<longrightarrow> - (2 * pi) < yawCmdToPi yawCmd \<and> yawCmdToPi yawCmd \<le> 0)"
  using fmodf_range [of yawCmd "2 * pi"] fmodf_range [of "- yawCmd" "2 * pi"]
  by (auto simp add: yawCmdToPi_def F_PI_def)

text \<open>
  The one correction by \<open>2 * F_PI\<close> brings the error into \<open>[-\<pi>, \<pi>]\<close> exactly when
  the wrapped desired yaw and the current yaw are at most \<open>3\<pi>\<close> apart.
\<close>

lemma yawErr_range_iff:
  "(- pi \<le> yawErr yawCmd yaw \<and> yawErr yawCmd yaw \<le> pi)
     \<longleftrightarrow> \<bar>yawCmdToPi yawCmd - yaw\<bar> \<le> 3 * pi"
  using pi_gt_zero by (auto simp add: yawErr_def Let_def F_PI_def)

text \<open>
  For claim C2, as it is stated for every current yaw: with the desired yaw \<open>0\<close> and the
  current yaw \<open>20\<close> radians the error is \<open>2\<pi> - 20\<close>, below \<open>-\<pi>\<close>.
\<close>

theorem yawErr_out_of_range: "yawErr 0 20 < - pi"
proof -
  have "yawErr 0 20 = 2 * pi - 20"
    using pi_ge_two pi_less_4
    by (simp add: yawErr_def yawCmdToPi_def Let_def F_PI_def fmodf_def)
  then show ?thesis
    using pi_less_4 by simp
qed

text \<open>
  Claim C2, amended: for every desired yaw and every current yaw within \<open>[-\<pi>, \<pi>]\<close>,
  the range of the yaw of an attitude, the yaw error computed in \<open>YawControl\<close> lies
  within \<open>[-\<pi>, \<pi>]\<close>, and the rate returned is \<open>kpYaw\<close> times that error.
\<close>

theorem yawErr_range:
  assumes "\<bar>yaw\<bar> \<le> pi"
  shows "- pi \<le> yawErr yawCmd yaw \<and> yawErr yawCmd yaw \<le> pi \<and>
         YawControl q yawCmd yaw = kpYaw q * yawErr yawCmd yaw"
proof -
  from yawCmdToPi_range [of yawCmd] assms have "\<bar>yawCmdToPi yawCmd - yaw\<bar> \<le> 3 * pi"
    by (cases "0 < yawCmd") auto
  then show ?thesis
    using yawErr_range_iff [of yawCmd yaw] by (simp add: YawControl_def)
qed

theorem yawErr_range_witness:
  "\<bar>0::real\<bar> \<le> pi \<and> yawErr (3 * pi) 0 = pi \<and> YawControl example_control (3 * pi) 0 = 2 * pi"
  using yawErr_range [of 0 "3 * pi" example_control]
  by (simp add: yawErr_def yawCmdToPi_def Let_def F_PI_def fmodf_def example_control_def)

section \<open>Lateral position\<close>

lemma mag_square: "mag a * mag a = vx a * vx a + vy a * vy a + vz a * vz a"
  by (simp add: mag_def)

lemma norm_V3F_value:
  assumes "mag a \<noteq> 0"
  shows "norm_V3F a = Inr \<lparr>vx = vx a / mag a, vy = vy a / mag a, vz = vz a / mag a\<rparr>"
  using assms by (simp add: norm_V3F_def)

lemma mag_scaled_norm:
  assumes "0 < mag a" and "0 \<le> k"
  shows "mag (V3F_scale \<lparr>vx = vx a / mag a, vy = vy a / mag a, vz = vz a / mag a\<rparr> k) = k"
proof -
  let ?m = "mag a"
  have "vx a / ?m * k * (vx a / ?m * k) + vy a / ?m * k * (vy a / ?m * k)
          + vz a / ?m * k * (vz a / ?m * k)
        = (vx a * vx a + vy a * vy a + vz a * vz a) / (?m * ?m) * (k * k)"
    by (simp add: add_divide_distrib distrib_left distrib_right mult_ac)
  also have "\<dots> = k * k"
    using assms(1) by (simp add: mag_square [symmetric])
  finally have "mag (V3F_scale \<lparr>vx = vx a / ?m, vy = vy a / ?m, vz = vz a / ?m\<rparr> k)
      = sqrt (k * k)"
    by (simp add: mag_def V3F_scale_def)
  with assms(2) show ?thesis by simp
qed

lemma mag_6_8: "mag \<lparr>vx = 6, vy = 8, vz = 0\<rparr> = 10"
proof -
  have "mag \<lparr>vx = 6, vy = 8, vz = 0\<rparr> = sqrt (10 * 10)" by (simp add: mag_def)
  then show ?thesis by simp
qed

lemma mag_3_4: "mag \<lparr>vx = 3, vy = 4, vz = 0\<rparr> = 5"
proof -
  have "mag \<lparr>vx = 3, vy = 4, vz = 0\<rparr> = sqrt (5 * 5)" by (simp add: mag_def)
  then show ?thesis by simp
qed

lemma mag_eqI:
  assumes "0 \<le> c" and "vx a * vx a + vy a * vy a + vz a * vz a = c * c"
  shows "mag a = c"
  using assms by (simp add: mag_def)

lemma mag_36_48: "mag \<lparr>vx = 36, vy = 48, vz = 0\<rparr> = 60"
  by (rule mag_eqI) simp_all

lemma mag_neg_36_48: "mag \<lparr>vx = - (36 / 5), vy = - (48 / 5), vz = 0\<rparr> = 12"
  by (rule mag_eqI) simp_all

lemma mag_neg_3_4: "mag \<lparr>vx = - (3 / 5), vy = - (4 / 5), vz = 0\<rparr> = 1"
  by (rule mag_eqI) simp_all

text \<open>
  \<open>LateralPositionControl\<close> sets the Z component of the desired velocity to 0, caps it
  (\<open>capVelCmd\<close>), and puts the capped velocity in the control sum of line 251.
\<close>

lemma LateralPositionControl_sum:
  assumes "capVelCmd q (velCmd\<lparr>vz := 0\<rparr>) = Inr capVel"
  shows "LateralPositionControl q posCmd velCmd pos vel accelCmdFF =
      (let accelCmd =
             V3F_add (V3F_add (V3F_mul \<lparr>vx = kpPosXY q, vy = kpPosXY q, vz = 0\<rparr>
                                       (V3F_sub (posCmd\<lparr>vz := vz pos\<rparr>) pos))
                              (V3F_mul \<lparr>vx = kpVelXY q, vy = kpVelXY q, vz = 0\<rparr>
                                       (V3F_sub capVel vel)))
                     (accelCmdFF\<lparr>vz := 0\<rparr>)
       in if mag accelCmd > maxAccelXY q
          then andThen (norm_V3F accelCmd) (\<lambda>n. Inr (V3F_scale n (maxAccelXY q)))
          else Inr accelCmd)"
  using assms by (simp add: LateralPositionControl_def Let_def)

text \<open>
  For claim C8, as it is stated: with the limit \<open>maxSpeedXY = -1\<close> the desired velocity
  \<open>(3, 4, 0)\<close> exceeds the limit and is capped to \<open>(-3/5, -4/5, 0)\<close>, of magnitude \<open>1\<close>
  and in the opposite direction; with the velocity gain \<open>12\<close> the acceleration returned
  is \<open>(-36/5, -48/5, 0)\<close>.
\<close>

theorem LateralPositionControl_negative_limit:
  "LateralPositionControl (example_control\<lparr>maxSpeedXY := - 1\<rparr>) V3F_zero
      \<lparr>vx = 3, vy = 4, vz = 0\<rparr> V3F_zero V3F_zero V3F_zero
     = Inr \<lparr>vx = - (36 / 5), vy = - (48 / 5), vz = 0\<rparr>
   \<and> capVelCmd (example_control\<lparr>maxSpeedXY := - 1\<rparr>) (\<lparr>vx = 3, vy = 4, vz = 0\<rparr>\<lparr>vz := 0\<rparr>)
     = Inr \<lparr>vx = - (3 / 5), vy = - (4 / 5), vz = 0\<rparr>
   \<and> maxSpeedXY (example_control\<lparr>maxSpeedXY := - 1\<rparr>) < mag \<lparr>vx = 3, vy = 4, vz = 0\<rparr>
   \<and> mag \<lparr>vx = - (3 / 5), vy = - (4 / 5), vz = 0\<rparr>
       \<noteq> maxSpeedXY (example_control\<lparr>maxSpeedXY := - 1\<rparr>)"
  by (simp add: LateralPositionControl_def capVelCmd_def norm_V3F_def mag_3_4 mag_neg_3_4
      mag_neg_36_48 V3F_scale_def V3F_zero_def V3F_add_def V3F_sub_def V3F_mul_def Let_def
      example_control_def)

text \<open>
  Claim C8, amended: in \<open>LateralPositionControl\<close>, when \<open>maxSpeedXY\<close> is not negative,
  the velocity command \<open>capVel\<close> that enters the control sum of line 251 is this: for a
  desired velocity whose magnitude, once its Z component is 0, exceeds \<open>maxSpeedXY\<close>, it
  has, in exact arithmetic, the magnitude \<open>maxSpeedXY\<close> and the direction of the desired
  velocity (it is the desired velocity times the non-negative factor
  \<open>maxSpeedXY / magnitude\<close>); otherwise it is the desired velocity, Z component 0,
  unchanged.
\<close>

theorem LateralPositionControl_capped_velocity:
  assumes "0 \<le> maxSpeedXY q"
  shows "\<exists>capVel.
      (maxSpeedXY q < mag (velCmd\<lparr>vz := 0\<rparr>) \<longrightarrow>
         mag capVel = maxSpeedXY q \<and>
         capVel = V3F_scale (velCmd\<lparr>vz := 0\<rparr>) (maxSpeedXY q / mag (velCmd\<lparr>vz := 0\<rparr>)) \<and>
         0 \<le> maxSpeedXY q / mag (velCmd\<lparr>vz := 0\<rparr>))
    \<and> (mag (velCmd\<lparr>vz := 0\<rparr>) \<le> maxSpeedXY q \<longrightarrow> capVel = velCmd\<lparr>vz := 0\<rparr>)
    \<and> LateralPositionControl q posCmd velCmd pos vel accelCmdFF =
        (let accelCmd =
               V3F_add (V3F_add (V3F_mul \<lparr>vx = kpPosXY q, vy = kpPosXY q, vz = 0\<rparr>
                                         (V3F_sub (posCmd\<lparr>vz := vz pos\<rparr>) pos))
                                (V3F_mul \<lparr>vx = kpVelXY q, vy = kpVelXY q, vz = 0\<rparr>
                                         (V3F_sub capVel vel)))
                       (accelCmdFF\<lparr>vz := 0\<rparr>)
         in if mag accelCmd > maxAccelXY q
            then andThen (norm_V3F accelCmd) (\<lambda>n. Inr (V3F_scale n (maxAccelXY q)))
            else Inr accelCmd)"
proof (cases "maxSpeedXY q < mag (velCmd\<lparr>vz := 0\<rparr>)")
  case True
  let ?v = "velCmd\<lparr>vz := 0\<rparr>"
  from True assms have pos: "0 < mag ?v" by simp
  let ?n = "\<lparr>vx = vx ?v / mag ?v, vy = vy ?v / mag ?v, vz = vz ?v / mag ?v\<rparr>"
  let ?c = "V3F_scale ?n (maxSpeedXY q)"
  from pos True have cap: "capVelCmd q ?v = Inr ?c"
    by (simp add: capVelCmd_def norm_V3F_value)
  have "mag ?c = maxSpeedXY q"
    using pos assms by (rule mag_scaled_norm)
  moreover have "?c = V3F_scale ?v (maxSpeedXY q / mag ?v)"
    by (simp add: V3F_scale_def)
  moreover from pos assms have "0 \<le> maxSpeedXY q / mag ?v" by simp
  moreover note LateralPositionControl_sum [OF cap, of posCmd pos vel accelCmdFF]
  ultimately show ?thesis
    using True by (intro exI [of _ ?c]) simp
next
  case False
  then have cap: "capVelCmd q (velCmd\<lparr>vz := 0\<rparr>) = Inr (velCmd\<lparr>vz := 0\<rparr>)"
    by (simp add: capVelCmd_def)
  from LateralPositionControl_sum [OF cap, of posCmd pos vel accelCmdFF] False
  show ?thesis
    by (intro exI [of _ "velCmd\<lparr>vz := 0\<rparr>"]) simp
qed

text \<open>
  With the limit \<open>5\<close>, the velocity gain \<open>12\<close> and \<open>maxAccelXY\<close> raised to \<open>100\<close>, the
  desired velocities \<open>(6, 8, 1)\<close> and \<open>(3, 4, 1)\<close> both enter the sum as \<open>(3, 4, 0)\<close>: the
  acceleration returned is \<open>(36, 48, 0)\<close>.
\<close>

theorem LateralPositionControl_capped_velocity_witness:
  "0 \<le> maxSpeedXY (example_control\<lparr>maxAccelXY := 100\<rparr>)
   \<and> maxSpeedXY (example_control\<lparr>maxAccelXY := 100\<rparr>) < mag (\<lparr>vx = 6, vy = 8, vz = 1\<rparr>\<lparr>vz := 0\<rparr>)
   \<and> LateralPositionControl (example_control\<lparr>maxAccelXY := 100\<rparr>) V3F_zero
        \<lparr>vx = 6, vy = 8, vz = 1\<rparr> V3F_zero V3F_zero V3F_zero = Inr \<lparr>vx = 36, vy = 48, vz = 0\<rparr>
   \<and> mag (\<lparr>vx = 3, vy = 4, vz = 1\<rparr>\<lparr>vz := 0\<rparr>) \<le> maxSpeedXY (example_control\<lparr>maxAccelXY := 100\<rparr>)
   \<and> LateralPositionControl (example_control\<lparr>maxAccelXY := 100\<rparr>) V3F_zero
        \<lparr>vx = 3, vy = 4, vz = 1\<rparr> V3F_zero V3F_zero V3F_zero = Inr \<lparr>vx = 36, vy = 48, vz = 0\<rparr>"
  using LateralPositionControl_capped_velocity [of "example_control\<lparr>maxAccelXY := 100\<rparr>"
          "\<lparr>vx = 6, vy = 8, vz = 1\<rparr>" V3F_zero V3F_zero V3F_zero V3F_zero]
        LateralPositionControl_capped_velocity [of "example_control\<lparr>maxAccelXY := 100\<rparr>"
          "\<lparr>vx = 3, vy = 4, vz = 1\<rparr>" V3F_zero V3F_zero V3F_zero V3F_zero]
  by (auto simp add: example_control_def mag_6_8 mag_3_4 mag_36_48 V3F_scale_def V3F_zero_def
      V3F_add_def V3F_sub_def V3F_mul_def Let_def)

end
